theory Spec2Isabelle
  imports Main "HOL-Library.Sublist"
begin

section \<open>pycall: Asterisk call files (src/pycall/callfile.py)\<close>

text \<open>
  The module defines one class, \<open>CallFile\<close>, whose methods build the directive lines
  of a call file (\<open>_buildfile\<close>), write them to a temporary file (\<open>_writefile\<close>) and
  move that file into the spool directory (\<open>run\<close>). The embedding below follows the
  Python statement by statement: attribute reads that can raise \<open>AttributeError\<close>,
  string concatenations that can raise \<open>TypeError\<close>, truthiness tests and
  \<open>try/except\<close> blocks are all written out.
\<close>

subsection \<open>Python values\<close>

text \<open>
  The scalar values an attribute of a \<open>CallFile\<close> may hold: \<open>None\<close>, a bool, an
  (unbounded) int or a str. The \<open>set_var\<close> argument is \<open>None\<close> or a dict; a dict is
  kept as the list of its items in iteration order.
\<close>

datatype pyval = PNone | PBool bool | PInt int | PStr string

datatype pyvars = VNone | VDict "(pyval \<times> pyval) list"

text \<open>Python truthiness (\<open>if x:\<close>, \<open>x or y\<close>, \<open>x and y\<close>).\<close>

fun truthy :: "pyval \<Rightarrow> bool" where
  "truthy PNone = False"
| "truthy (PBool b) = b"
| "truthy (PInt i) = (i \<noteq> 0)"
| "truthy (PStr s) = (s \<noteq> [])"

fun truthy_vars :: "pyvars \<Rightarrow> bool" where
  "truthy_vars VNone = False"
| "truthy_vars (VDict items) = (items \<noteq> [])"

text \<open>\<open>str(x)\<close>, which is what the \<open>%s\<close> conversion applies to its argument.\<close>

definition digit :: "nat \<Rightarrow> char" where
  "digit n = ''0123456789'' ! n"

fun str_nat :: "nat \<Rightarrow> string" where
  "str_nat n = (if n < 10 then [digit n] else str_nat (n div 10) @ [digit (n mod 10)])"

declare str_nat.simps [simp del]

definition str_int :: "int \<Rightarrow> string" where
  "str_int i = (if i < 0 then CHR ''-'' # str_nat (nat (- i)) else str_nat (nat i))"

fun str :: "pyval \<Rightarrow> string" where
  "str PNone = ''None''"
| "str (PBool b) = (if b then ''True'' else ''False'')"
| "str (PInt i) = str_int i"
| "str (PStr s) = s"

subsection \<open>Exceptions\<close>

text \<open>
  Modelled from the spec: the exception classes that \<open>from .errors import *\<close> brings into
  the module (pycall/errors.py is not among the sources). The spec treats them as distinct
  error kinds; \<open>UnknownError\<close>, \<open>NoChannelDefinedError\<close>, \<open>NoActionDefinedError\<close>,
  \<open>NoUserError\<close>, \<open>NoUserPermissionError\<close> and \<open>NoSpoolPermissionError\<close> are the names
  the source uses. The other constructors are Python's built-in exceptions.
\<close>

datatype error =
    NameError | AttributeError | TypeError | KeyError | OverflowError | OSError
  | UnknownError | NoChannelDefinedError | NoActionDefinedError
  | NoUserError | NoUserPermissionError | NoSpoolPermissionError

definition bind_err :: "error + 'a \<Rightarrow> ('a \<Rightarrow> error + 'b) \<Rightarrow> error + 'b" where
  "bind_err m f = (case m of Inl e \<Rightarrow> Inl e | Inr x \<Rightarrow> f x)"

text \<open>
  Reading an instance attribute \<open>self.name\<close>: an attribute that was never assigned
  raises \<open>AttributeError\<close> (the class defines no \<open>__getattr__\<close>).
\<close>

definition getattr :: "pyval option \<Rightarrow> error + pyval" where
  "getattr a = (case a of None \<Rightarrow> Inl AttributeError | Some v \<Rightarrow> Inr v)"

text \<open>\<open>'literal' + x\<close>: defined when \<open>x\<close> is a str, \<open>TypeError\<close> otherwise.\<close>

fun str_add :: "string \<Rightarrow> pyval \<Rightarrow> error + string" where
  "str_add pre (PStr s) = Inr (pre @ s)"
| "str_add pre _ = Inl TypeError"

text \<open>
  A bare name inside a method body is looked up among the function's locals, then the
  module's globals (then the builtins); the class body's names are not in scope. The
  module globals are a parameter, since \<open>from .errors import *\<close> decides part of them.
\<close>

definition lookup_global :: "(string \<rightharpoonup> pyval) \<Rightarrow> string \<Rightarrow> error + pyval" where
  "lookup_global globals name = (case globals name of None \<Rightarrow> Inl NameError | Some v \<Rightarrow> Inr v)"

subsection \<open>The CallFile object\<close>

text \<open>
  The first eight fields are the attributes \<open>__init__\<close> assigns. The others are the
  attributes \<open>_buildfile\<close> reads from \<open>self\<close> although \<open>__init__\<close> never assigns them:
  \<open>None\<close> here means "not set on the instance", \<open>Some v\<close> that a caller assigned \<open>v\<close>
  (\<open>Some PNone\<close> is Python's \<open>None\<close>). The types of the \<open>call\<close> and \<open>action\<close>
  objects (pycall/call.py, pycall/actions.py) are parameters: the module only stores them.
\<close>

record ('c, 'a) CallFile =
  call :: 'c
  action :: 'a
  set_var :: pyvars
  archive :: pyval
  user :: pyval
  tmpdir :: pyval
  file_name :: pyval
  spool_dir :: pyval
  channel :: "pyval option"
  application :: "pyval option"
  data :: "pyval option"
  context' :: "pyval option"
  extension :: "pyval option"
  priority :: "pyval option"
  callerid :: "pyval option"
  wait_time :: "pyval option"
  max_retries :: "pyval option"
  retry_time :: "pyval option"
  account :: "pyval option"

text \<open>The class attribute \<open>CallFile.DEFAULT_SPOOL_DIR\<close>.\<close>

definition DEFAULT_SPOOL_DIR :: string where
  "DEFAULT_SPOOL_DIR = ''/var/spool/asterisk/outgoing''"

text \<open>
  \<open>__init__\<close>: the last statement is \<open>self.spool_dir = spool_dir or DEFAULT_SPOOL_DIR\<close>,
  with \<open>DEFAULT_SPOOL_DIR\<close> a bare name, so it is resolved in the module globals, not in
  the class.
\<close>

definition init ::
  "(string \<rightharpoonup> pyval) \<Rightarrow> 'c \<Rightarrow> 'a \<Rightarrow> pyvars \<Rightarrow> pyval \<Rightarrow> pyval \<Rightarrow> pyval \<Rightarrow> pyval \<Rightarrow> pyval
     \<Rightarrow> error + ('c, 'a) CallFile" where
  "init globals call_arg action_arg set_var_arg archive_arg user_arg tmpdir_arg
        file_name_arg spool_dir_arg =
     bind_err (if truthy spool_dir_arg then Inr spool_dir_arg
               else lookup_global globals ''DEFAULT_SPOOL_DIR'')
       (\<lambda>sd. Inr \<lparr> call = call_arg, action = action_arg, set_var = set_var_arg,
                   archive = archive_arg, user = user_arg, tmpdir = tmpdir_arg,
                   file_name = file_name_arg, spool_dir = sd,
                   channel = None, application = None, data = None, context' = None,
                   extension = None, priority = None, callerid = None, wait_time = None,
                   max_retries = None, retry_time = None, account = None \<rparr>)"

subsection \<open>Building the directive lines\<close>

text \<open>\<open>_is_valid\<close>: the body is \<open>return True\<close>.\<close>

definition is_valid :: "('c, 'a) CallFile \<Rightarrow> bool" where
  "is_valid cf = True"

text \<open>Line 71: \<open>cf.append('Channel: '+self.channel)\<close>.\<close>

definition channel_stmt :: "('c, 'a) CallFile \<Rightarrow> string list \<Rightarrow> error + string list" where
  "channel_stmt cf ls =
     bind_err (getattr (channel cf)) (\<lambda>ch.
     bind_err (str_add ''Channel: '' ch) (\<lambda>l. Inr (ls @ [l])))"

text \<open>
  Line 76: \<open>self.context and self.extension and self.priority\<close>, evaluated left to right
  and stopping at the first falsy operand.
\<close>

definition context_cond :: "('c, 'a) CallFile \<Rightarrow> error + bool" where
  "context_cond cf =
     bind_err (getattr (context' cf)) (\<lambda>c.
       if \<not> truthy c then Inr False
       else bind_err (getattr (extension cf)) (\<lambda>e.
         if \<not> truthy e then Inr False
         else bind_err (getattr (priority cf)) (\<lambda>p. Inr (truthy p))))"

text \<open>Lines 73 to 81: the application branch, the context branch, or \<open>raise UnknownError\<close>.\<close>

definition action_stmt :: "('c, 'a) CallFile \<Rightarrow> string list \<Rightarrow> error + string list" where
  "action_stmt cf ls =
     bind_err (getattr (application cf)) (\<lambda>app.
       if truthy app then
         bind_err (str_add ''Application: '' app) (\<lambda>l1.
         bind_err (getattr (data cf)) (\<lambda>d.
         bind_err (str_add ''Data: '' d) (\<lambda>l2. Inr ((ls @ [l1]) @ [l2]))))
       else
         bind_err (context_cond cf) (\<lambda>c.
           if c then
             bind_err (getattr (context' cf)) (\<lambda>cx.
             bind_err (str_add ''Context: '' cx) (\<lambda>l1.
             bind_err (getattr (extension cf)) (\<lambda>ex.
             bind_err (str_add ''Extension: '' ex) (\<lambda>l2.
             bind_err (getattr (priority cf)) (\<lambda>pr.
             bind_err (str_add ''Priority: '' pr) (\<lambda>l3.
               Inr (((ls @ [l1]) @ [l2]) @ [l3])))))))
           else Inl UnknownError))"

text \<open>Lines 83 to 85: one \<open>'Set: %s=%s' % (var, value)\<close> line per item of the dict.\<close>

definition set_line :: "pyval \<times> pyval \<Rightarrow> string" where
  "set_line item = ''Set: '' @ str (fst item) @ ''='' @ str (snd item)"

fun set_loop :: "(pyval \<times> pyval) list \<Rightarrow> string list \<Rightarrow> string list" where
  "set_loop [] ls = ls"
| "set_loop (item # items) ls = set_loop items (ls @ [set_line item])"

definition set_stmt :: "('c, 'a) CallFile \<Rightarrow> string list \<Rightarrow> error + string list" where
  "set_stmt cf ls =
     (if truthy_vars (set_var cf) then
        (case set_var cf of
           VDict items \<Rightarrow> Inr (set_loop items ls)
         | VNone \<Rightarrow> Inl AttributeError)
      else Inr ls)"

text \<open>
  Lines 87 to 100, one shape for five attributes:
  \<open>if self.x: cf.append('X: %s' % self.x)\<close>.
\<close>

definition opt_stmt :: "string \<Rightarrow> pyval option \<Rightarrow> string list \<Rightarrow> error + string list" where
  "opt_stmt pre a ls =
     bind_err (getattr a) (\<lambda>v. if truthy v then Inr (ls @ [pre @ str v]) else Inr ls)"

text \<open>Lines 102 and 103: \<open>if self.archive: cf.append('Archive: yes')\<close>.\<close>

definition archive_stmt :: "('c, 'a) CallFile \<Rightarrow> string list \<Rightarrow> error + string list" where
  "archive_stmt cf ls = (if truthy (archive cf) then Inr (ls @ [''Archive: yes'']) else Inr ls)"

text \<open>\<open>_buildfile\<close>: the statements above in sequence, starting from \<open>cf = []\<close>.\<close>

definition buildfile :: "('c, 'a) CallFile \<Rightarrow> error + string list" where
  "buildfile cf =
     (if \<not> is_valid cf then Inl UnknownError
      else
        bind_err (channel_stmt cf []) (\<lambda>ls.
        bind_err (action_stmt cf ls) (\<lambda>ls.
        bind_err (set_stmt cf ls) (\<lambda>ls.
        bind_err (opt_stmt ''Callerid: '' (callerid cf) ls) (\<lambda>ls.
        bind_err (opt_stmt ''WaitTime: '' (wait_time cf) ls) (\<lambda>ls.
        bind_err (opt_stmt ''Maxretries: '' (max_retries cf) ls) (\<lambda>ls.
        bind_err (opt_stmt ''RetryTime: '' (retry_time cf) ls) (\<lambda>ls.
        bind_err (opt_stmt ''Account: '' (account cf) ls) (\<lambda>ls.
        archive_stmt cf ls)))))))))"

subsection \<open>The operating system\<close>

text \<open>
  The files the delivery touches, by path: the bytes written so far, the owner set by
  \<open>chown\<close> (\<open>None\<close>: the creating process's own) and the access and modification
  times set by \<open>utime\<close> (\<open>None\<close>: the natural creation time).
\<close>

record file_info =
  f_content :: string
  f_owner :: "(int \<times> int) option"
  f_times :: "(int \<times> int) option"

type_synonym fs = "string \<rightharpoonup> file_info"

text \<open>The argument of \<open>run\<close>: a \<open>datetime\<close> (year, month, day, hour, minute, second).\<close>

datatype datetime = Datetime int int int int int int

text \<open>
  What the library calls answer is outside the module, so it is a parameter: the path
  \<open>mkstemp(suffix, dir)\<close> creates (or the exception it raises), whether a \<open>write\<close> of a
  chunk succeeds, the uid and gid \<open>getpwnam\<close> finds for a name (\<open>None\<close>: it raises),
  whether \<open>chown\<close>, \<open>utime\<close> and \<open>move\<close> are permitted, and the POSIX seconds
  \<open>mktime(time.timetuple())\<close> computes (\<open>None\<close>: it raises). \<open>mktime\<close> returns a float
  holding a whole number of seconds, kept here as an int.
\<close>

record os =
  mkstemp :: "string \<Rightarrow> pyval \<Rightarrow> error + string"
  write_ok :: "string \<Rightarrow> string \<Rightarrow> bool"
  getpwnam :: "pyval \<Rightarrow> (int \<times> int) option"
  chown_ok :: "string \<Rightarrow> int \<Rightarrow> int \<Rightarrow> bool"
  mktime :: "datetime \<Rightarrow> int option"
  utime_ok :: "string \<Rightarrow> int \<Rightarrow> int \<Rightarrow> bool"
  move_ok :: "string \<Rightarrow> string \<Rightarrow> bool"

definition new_file :: file_info where
  "new_file = \<lparr> f_content = [], f_owner = None, f_times = None \<rparr>"

text \<open>\<open>f.write(s)\<close> on the file at \<open>fname\<close>.\<close>

definition file_write :: "os \<Rightarrow> string \<Rightarrow> string \<Rightarrow> fs \<Rightarrow> (error + unit) \<times> fs" where
  "file_write sys fname s files =
     (case files fname of
        None \<Rightarrow> (Inl OSError, files)
      | Some f \<Rightarrow>
          if write_ok sys fname s
          then (Inr (), files(fname \<mapsto> f\<lparr>f_content := f_content f @ s\<rparr>))
          else (Inl OSError, files))"

text \<open>\<open>chown(fname, uid, gid)\<close>.\<close>

definition chown :: "os \<Rightarrow> string \<Rightarrow> int \<Rightarrow> int \<Rightarrow> fs \<Rightarrow> (error + unit) \<times> fs" where
  "chown sys fname uid gid files =
     (case files fname of
        None \<Rightarrow> (Inl OSError, files)
      | Some f \<Rightarrow>
          if chown_ok sys fname uid gid
          then (Inr (), files(fname \<mapsto> f\<lparr>f_owner := Some (uid, gid)\<rparr>))
          else (Inl OSError, files))"

text \<open>\<open>utime(fname, (atime, mtime))\<close>.\<close>

definition utime :: "os \<Rightarrow> string \<Rightarrow> int \<Rightarrow> int \<Rightarrow> fs \<Rightarrow> (error + unit) \<times> fs" where
  "utime sys fname at mt files =
     (case files fname of
        None \<Rightarrow> (Inl OSError, files)
      | Some f \<Rightarrow>
          if utime_ok sys fname at mt
          then (Inr (), files(fname \<mapsto> f\<lparr>f_times := Some (at, mt)\<rparr>))
          else (Inl OSError, files))"

text \<open>\<open>shutil.move(src, dst)\<close>: on success the file is at \<open>dst\<close> and no longer at \<open>src\<close>.\<close>

definition move :: "os \<Rightarrow> string \<Rightarrow> string \<Rightarrow> fs \<Rightarrow> (error + unit) \<times> fs" where
  "move sys src dst files =
     (case files src of
        None \<Rightarrow> (Inl OSError, files)
      | Some f \<Rightarrow>
          if move_ok sys src dst
          then (Inr (), (files(src := None))(dst \<mapsto> f))
          else (Inl OSError, files))"

text \<open>
  \<open>path.basename(p)\<close>: what follows the last slash of \<open>p\<close>. (\<open>path\<close> is the class of
  the \<open>path\<close> library, imported over \<open>os.path\<close>; its \<open>basename\<close> is that of
  \<open>os.path\<close>.)
\<close>

definition basename :: "string \<Rightarrow> string" where
  "basename p = rev (takeWhile (\<lambda>c. c \<noteq> CHR ''/'') (rev p))"

text \<open>\<open>os.path.dirname(p)\<close> and \<open>os.path.join(d, name)\<close> of the standard library (POSIX).\<close>

definition dirname :: "string \<Rightarrow> string" where
  "dirname p =
     (let hd_part = rev (dropWhile (\<lambda>c. c \<noteq> CHR ''/'') (rev p));
          stripped = rev (dropWhile (\<lambda>c. c = CHR ''/'') (rev hd_part))
      in if stripped = [] then hd_part else stripped)"

definition path_join :: "string \<Rightarrow> string \<Rightarrow> string" where
  "path_join d name =
     (if name \<noteq> [] \<and> hd name = CHR ''/'' then name
      else if d = [] \<or> last d = CHR ''/'' then d @ name
      else d @ ''/'' @ name)"

subsection \<open>Writing and delivering the file\<close>

text \<open>Lines 130 to 132: \<open>for line in cf: f.write(line+'\n')\<close>.\<close>

fun write_loop :: "os \<Rightarrow> string \<Rightarrow> string list \<Rightarrow> fs \<Rightarrow> (error + unit) \<times> fs" where
  "write_loop sys fname [] files = (Inr (), files)"
| "write_loop sys fname (line # ls) files =
     (case file_write sys fname (line @ [CHR 0x0A]) files of
        (Inl e, files') \<Rightarrow> (Inl e, files')
      | (Inr _, files') \<Rightarrow> write_loop sys fname ls files')"

text \<open>
  \<open>_writefile\<close>: \<open>mkstemp(suffix='.call', dir=self.tmpdir)\<close> when \<open>self.tmpdir\<close> is
  truthy, \<open>mkstemp('.call')\<close> otherwise (the default \<open>dir\<close> is \<open>None\<close>); the new file is
  empty; the lines are written; the path is returned. An exception of \<open>mkstemp\<close> or
  \<open>write\<close> propagates.
\<close>

definition writefile ::
  "os \<Rightarrow> ('c, 'a) CallFile \<Rightarrow> string list \<Rightarrow> fs \<Rightarrow> (error + string) \<times> fs" where
  "writefile sys cf ls files =
     (case (if truthy (tmpdir cf) then mkstemp sys ''.call'' (tmpdir cf)
            else mkstemp sys ''.call'' PNone) of
        Inl e \<Rightarrow> (Inl e, files)
      | Inr fname \<Rightarrow>
          (case write_loop sys fname ls (files(fname \<mapsto> new_file)) of
             (Inl e, files') \<Rightarrow> (Inl e, files')
           | (Inr _, files') \<Rightarrow> (Inr fname, files')))"

text \<open>\<open>spool\<close>: the body is \<open>raise NoActionDefinedError\<close>.\<close>

definition spool :: "os \<Rightarrow> ('c, 'a) CallFile \<Rightarrow> fs \<Rightarrow> (error + unit) \<times> fs" where
  "spool sys cf files = (Inl NoActionDefinedError, files)"

text \<open>
  Lines 158 to 161, the inner \<open>try\<close>: any exception of \<open>chown\<close> is replaced by
  \<open>NoUserPermissionError\<close>.
\<close>

definition chown_try :: "os \<Rightarrow> string \<Rightarrow> int \<Rightarrow> int \<Rightarrow> fs \<Rightarrow> (error + unit) \<times> fs" where
  "chown_try sys fname uid gid files =
     (case chown sys fname uid gid files of
        (Inl e, files') \<Rightarrow> (Inl NoUserPermissionError, files')
      | (Inr u, files') \<Rightarrow> (Inr u, files'))"

text \<open>
  Lines 153 to 163, the outer \<open>try\<close>: \<open>getpwnam\<close>, then the inner \<open>try\<close>; the bare
  \<open>except:\<close> replaces any exception raised inside, that of the inner \<open>try\<close> included, by
  \<open>NoUserError\<close>.
\<close>

definition user_try :: "os \<Rightarrow> pyval \<Rightarrow> string \<Rightarrow> fs \<Rightarrow> (error + unit) \<times> fs" where
  "user_try sys u fname files =
     (case (case getpwnam sys u of
              None \<Rightarrow> (Inl KeyError, files)
            | Some (uid, gid) \<Rightarrow> chown_try sys fname uid gid files) of
        (Inl e, files') \<Rightarrow> (Inl NoUserError, files')
      | (Inr x, files') \<Rightarrow> (Inr x, files'))"

text \<open>
  Lines 168 to 172: \<open>time.timetuple()\<close> raises \<open>AttributeError\<close> when \<open>time\<close> is
  \<open>None\<close>; \<open>except: pass\<close> discards whatever was raised.
\<close>

definition time_try :: "os \<Rightarrow> datetime option \<Rightarrow> string \<Rightarrow> fs \<Rightarrow> fs" where
  "time_try sys time fname files =
     (case (case time of
              None \<Rightarrow> (Inl AttributeError, files)
            | Some dt \<Rightarrow>
                (case mktime sys dt of
                   None \<Rightarrow> (Inl OverflowError, files)
                 | Some t \<Rightarrow> utime sys fname t t files)) of
        (r, files') \<Rightarrow> files')"

text \<open>
  The destination of the move: \<open>self.spool_dir+path.basename(fname)\<close>, a str only when
  \<open>self.spool_dir\<close> is one.
\<close>

fun add_str :: "pyval \<Rightarrow> string \<Rightarrow> error + string" where
  "add_str (PStr d) s = Inr (d @ s)"
| "add_str _ s = Inl TypeError"

definition destination :: "('c, 'a) CallFile \<Rightarrow> string \<Rightarrow> error + string" where
  "destination cf fname = add_str (spool_dir cf) (basename fname)"

text \<open>
  Lines 174 to 179: the destination is computed inside the \<open>try\<close>, so its \<open>TypeError\<close>
  is replaced by \<open>NoSpoolPermissionError\<close> like an exception of \<open>move\<close>.
\<close>

definition move_try ::
  "os \<Rightarrow> ('c, 'a) CallFile \<Rightarrow> string \<Rightarrow> fs \<Rightarrow> (error + bool) \<times> fs" where
  "move_try sys cf fname files =
     (case (case destination cf fname of
              Inl e \<Rightarrow> (Inl e, files)
            | Inr dst \<Rightarrow> move sys fname dst files) of
        (Inl e, files') \<Rightarrow> (Inl NoSpoolPermissionError, files')
      | (Inr _, files') \<Rightarrow> (Inr True, files'))"

text \<open>\<open>run\<close>.\<close>

definition run ::
  "os \<Rightarrow> ('c, 'a) CallFile \<Rightarrow> datetime option \<Rightarrow> fs \<Rightarrow> (error + bool) \<times> fs" where
  "run sys cf time files =
     (case buildfile cf of
        Inl e \<Rightarrow> (Inl e, files)
      | Inr ls \<Rightarrow>
          (case writefile sys cf ls files of
             (Inl e, files1) \<Rightarrow> (Inl e, files1)
           | (Inr fname, files1) \<Rightarrow>
               (case (if truthy (user cf) then user_try sys (user cf) fname files1
                      else (Inr (), files1)) of
                  (Inl e, files2) \<Rightarrow> (Inl e, files2)
                | (Inr _, files2) \<Rightarrow>
                    move_try sys cf fname (time_try sys time fname files2))))"

subsection \<open>Closed forms and sample inputs used in the statements\<close>

text \<open>
  The lines up to and including the action block: the result of lines 71 to 81.
\<close>

definition head_lines :: "('c, 'a) CallFile \<Rightarrow> error + string list" where
  "head_lines cf = bind_err (channel_stmt cf []) (action_stmt cf)"

text \<open>
  The lines a dict of variables and one optional attribute contribute, as lists: nothing
  for \<open>None\<close> or an empty dict, one \<open>Set\<close> line per item otherwise; nothing for a falsy
  attribute value (\<open>None\<close>, \<open>False\<close>, \<open>0\<close>, the empty str), one line otherwise.
\<close>

definition set_lines :: "pyvars \<Rightarrow> string list" where
  "set_lines sv = (case sv of VNone \<Rightarrow> [] | VDict items \<Rightarrow> map set_line items)"

definition opt_line :: "string \<Rightarrow> pyval option \<Rightarrow> string list" where
  "opt_line pre a = (case a of None \<Rightarrow> [] | Some v \<Rightarrow> if truthy v then [pre @ str v] else [])"

definition optional_lines :: "('c, 'a) CallFile \<Rightarrow> string list" where
  "optional_lines cf =
     set_lines (set_var cf) @ opt_line ''Callerid: '' (callerid cf)
     @ opt_line ''WaitTime: '' (wait_time cf) @ opt_line ''Maxretries: '' (max_retries cf)
     @ opt_line ''RetryTime: '' (retry_time cf) @ opt_line ''Account: '' (account cf)
     @ (if truthy (archive cf) then [''Archive: yes''] else [])"

text \<open>How many lines of \<open>ls\<close> start with \<open>pre\<close>.\<close>

definition count_prefix :: "string \<Rightarrow> string list \<Rightarrow> nat" where
  "count_prefix pre ls = length (filter (prefix pre) ls)"

text \<open>
  A sample object: a \<open>CallFile\<close> built with an explicit spool directory, on which the
  caller then set channel \<open>SIP/1234\<close>, application \<open>Playback\<close> with data
  \<open>hello-world\<close>, and \<open>None\<close> for every other attribute \<open>_buildfile\<close> reads.
\<close>

definition example_call :: "(unit, unit) CallFile" where
  "example_call =
     \<lparr> call = (), action = (), set_var = VNone, archive = PNone, user = PNone,
       tmpdir = PNone, file_name = PNone, spool_dir = PStr ''/var/spool/asterisk/outgoing'',
       channel = Some (PStr ''SIP/1234''), application = Some (PStr ''Playback''),
       data = Some (PStr ''hello-world''), context' = Some PNone, extension = Some PNone,
       priority = Some PNone, callerid = Some PNone, wait_time = Some PNone,
       max_retries = Some PNone, retry_time = Some PNone, account = Some PNone \<rparr>"

text \<open>
  A sample system in which every call succeeds: \<open>mkstemp\<close> creates \<open>/tmp/tmpabc\<close>
  followed by the suffix, the only user is \<open>asterisk\<close> (uid and gid 1001), and
  \<open>mktime\<close> answers 1288888888.
\<close>

definition example_os :: os where
  "example_os =
     \<lparr> mkstemp = (\<lambda>suffix dir. Inr (''/tmp/tmpabc'' @ suffix)),
       write_ok = (\<lambda>fname s. True),
       getpwnam = (\<lambda>u. if u = PStr ''asterisk'' then Some (1001, 1001) else None),
       chown_ok = (\<lambda>fname uid gid. True),
       mktime = (\<lambda>dt. Some 1288888888),
       utime_ok = (\<lambda>fname at mt. True),
       move_ok = (\<lambda>src dst. True) \<rparr>"

text \<open>
  An attribute that is set and truthy: the test \<open>if self.x:\<close> of lines 87 to 100 passes.
\<close>

definition truthy_attr :: "pyval option \<Rightarrow> bool" where
  "truthy_attr a = (case a of None \<Rightarrow> False | Some v \<Rightarrow> truthy v)"

text \<open>The sample object with every optional attribute given a truthy value.\<close>

definition full_call :: "(unit, unit) CallFile" where
  "full_call =
     example_call\<lparr> set_var := VDict [(PStr ''FOO'', PStr ''1''), (PStr ''BAR'', PInt 2)],
       callerid := Some (PStr ''Bob <100>''), wait_time := Some (PInt 30),
       max_retries := Some (PInt 3), retry_time := Some (PInt 60),
       account := Some (PStr ''billing''), archive := PBool True \<rparr>"

text \<open>
  The files after \<open>_writefile\<close> wrote the three lines of the sample object in the sample
  system, starting from no files.
\<close>

definition example_tmp :: fs where
  "example_tmp =
     [''/tmp/tmpabc.call'' \<mapsto>
        \<lparr> f_content = ''Channel: SIP/1234'' @ [CHR 0x0A] @ ''Application: Playback'' @ [CHR 0x0A]
                        @ ''Data: hello-world'' @ [CHR 0x0A],
          f_owner = None, f_times = None \<rparr>]"

section \<open>Properties\<close>

subsection \<open>Auxiliary facts about the builder\<close>

lemma bind_err_simps [simp]: "bind_err (Inr x) f = f x" "bind_err (Inl e) f = Inl e"
  by (simp_all add: bind_err_def)

lemma bind_err_Inr: "bind_err m f = Inr y \<longleftrightarrow> (\<exists>x. m = Inr x \<and> f x = Inr y)"
  by (cases m) simp_all

lemma bind_err_Inl: "bind_err m f = Inl e \<longleftrightarrow> m = Inl e \<or> (\<exists>x. m = Inr x \<and> f x = Inl e)"
  by (cases m) simp_all

lemma set_loop_map: "set_loop items ls = ls @ map set_line items"
  by (induction items arbitrary: ls) simp_all

lemma set_stmt_closed: "set_stmt cf ls = Inr (ls @ set_lines (set_var cf))"
  by (cases "set_var cf") (simp_all add: set_stmt_def set_lines_def set_loop_map)

lemma opt_stmt_Some: "opt_stmt pre (Some v) ls = Inr (ls @ opt_line pre (Some v))"
  by (simp add: opt_stmt_def opt_line_def getattr_def)

lemma opt_stmt_None: "opt_stmt pre None ls = Inl AttributeError"
  by (simp add: opt_stmt_def getattr_def)

lemma opt_stmt_Inr: "opt_stmt pre a ls = Inr ls' \<Longrightarrow> a \<noteq> None \<and> ls' = ls @ opt_line pre a"
  by (cases a) (simp_all add: opt_stmt_Some opt_stmt_None)

lemma archive_stmt_closed:
  "archive_stmt cf ls = Inr (ls @ (if truthy (archive cf) then [''Archive: yes''] else []))"
  by (simp add: archive_stmt_def)

lemma buildfile_closed:
  assumes "head_lines cf = Inr hd_ls"
    and "callerid cf \<noteq> None" "wait_time cf \<noteq> None" "max_retries cf \<noteq> None"
        "retry_time cf \<noteq> None" "account cf \<noteq> None"
  shows "buildfile cf = Inr (hd_ls @ optional_lines cf)"
proof -
  from assms(1) obtain l0 where l0: "channel_stmt cf [] = Inr l0" "action_stmt cf l0 = Inr hd_ls"
    by (auto simp: head_lines_def bind_err_Inr)
  from assms(2-) obtain ci wt mr rt ac where a:
    "callerid cf = Some ci" "wait_time cf = Some wt" "max_retries cf = Some mr"
    "retry_time cf = Some rt" "account cf = Some ac"
    by auto
  show ?thesis
    by (simp add: buildfile_def is_valid_def l0 set_stmt_closed opt_stmt_Some a
        archive_stmt_closed optional_lines_def)
qed

lemma buildfile_InrD:
  assumes "buildfile cf = Inr out"
  shows "\<exists>hd_ls. head_lines cf = Inr hd_ls \<and> out = hd_ls @ optional_lines cf
           \<and> callerid cf \<noteq> None \<and> wait_time cf \<noteq> None \<and> max_retries cf \<noteq> None
           \<and> retry_time cf \<noteq> None \<and> account cf \<noteq> None"
proof -
  from assms obtain l0 l1 l2 l3 l4 l5 l6 l7 where s:
    "channel_stmt cf [] = Inr l0" "action_stmt cf l0 = Inr l1" "set_stmt cf l1 = Inr l2"
    "opt_stmt ''Callerid: '' (callerid cf) l2 = Inr l3"
    "opt_stmt ''WaitTime: '' (wait_time cf) l3 = Inr l4"
    "opt_stmt ''Maxretries: '' (max_retries cf) l4 = Inr l5"
    "opt_stmt ''RetryTime: '' (retry_time cf) l5 = Inr l6"
    "opt_stmt ''Account: '' (account cf) l6 = Inr l7"
    "archive_stmt cf l7 = Inr out"
    by (auto simp: buildfile_def is_valid_def bind_err_Inr)
  have h: "head_lines cf = Inr l1" by (simp add: head_lines_def s)
  from s(4-8) have n: "callerid cf \<noteq> None" "wait_time cf \<noteq> None" "max_retries cf \<noteq> None"
    "retry_time cf \<noteq> None" "account cf \<noteq> None"
    by (auto dest: opt_stmt_Inr)
  from buildfile_closed [OF h n] assms have "out = l1 @ optional_lines cf" by simp
  with h n show ?thesis by blast
qed


lemma head_lines_shape:
  assumes "head_lines cf = Inr hd_ls"
  shows "(\<exists>ch app d. hd_ls = [''Channel: '' @ ch, ''Application: '' @ app, ''Data: '' @ d])
       \<or> (\<exists>ch cx ex pr. hd_ls = [''Channel: '' @ ch, ''Context: '' @ cx, ''Extension: '' @ ex,
             ''Priority: '' @ pr])"
proof -
  from assms obtain l0 where l0: "channel_stmt cf [] = Inr l0" "action_stmt cf l0 = Inr hd_ls"
    by (auto simp: head_lines_def bind_err_Inr)
  from l0(1) obtain ch where ch: "l0 = [''Channel: '' @ ch]"
    by (auto simp: channel_stmt_def bind_err_Inr elim!: str_add.elims)
  from l0(2) show ?thesis unfolding ch action_stmt_def
    by (auto simp: bind_err_Inr split: if_splits elim!: str_add.elims)
qed





lemma getattr_err: "getattr a = Inl e \<Longrightarrow> e = AttributeError"
  by (cases a) (simp_all add: getattr_def)

lemma str_add_err: "str_add pre v = Inl e \<Longrightarrow> e = TypeError"
  by (cases v) simp_all

lemma channel_stmt_err: "channel_stmt cf ls = Inl e \<Longrightarrow> e = AttributeError \<or> e = TypeError"
  by (auto simp: channel_stmt_def bind_err_Inl dest: getattr_err str_add_err)

lemma context_cond_err: "context_cond cf = Inl e \<Longrightarrow> e = AttributeError"
  by (auto simp: context_cond_def bind_err_Inl dest: getattr_err split: if_splits)

lemma action_stmt_err:
  "action_stmt cf ls = Inl e \<Longrightarrow> e = AttributeError \<or> e = TypeError \<or> e = UnknownError"
  by (auto simp: action_stmt_def bind_err_Inl dest: getattr_err str_add_err context_cond_err
      split: if_splits)

lemma action_stmt_UnknownError:
  "action_stmt cf ls = Inl UnknownError \<Longrightarrow>
     \<exists>app. application cf = Some app \<and> \<not> truthy app \<and> context_cond cf = Inr False"
  by (auto simp: action_stmt_def bind_err_Inl getattr_def
      dest: str_add_err context_cond_err split: if_splits option.splits)

lemma opt_stmt_err: "opt_stmt pre a ls = Inl e \<Longrightarrow> e = AttributeError"
  by (cases a) (simp_all add: opt_stmt_Some opt_stmt_None)

lemma buildfile_InlD:
  assumes "buildfile cf = Inl e"
  shows "e = AttributeError \<or> e = TypeError
       \<or> (e = UnknownError \<and> (\<exists>ls. channel_stmt cf [] = Inr ls \<and> action_stmt cf ls = Inl UnknownError))"
  using assms
  by (auto simp: buildfile_def is_valid_def bind_err_Inl set_stmt_closed archive_stmt_closed
      dest: channel_stmt_err action_stmt_err opt_stmt_err)

lemma buildfile_never_validation_error:
  "buildfile cf \<noteq> Inl NoChannelDefinedError \<and> buildfile cf \<noteq> Inl NoActionDefinedError"
  by (auto dest: buildfile_InlD)

lemma count_prefix_append [simp]:
  "count_prefix pre (xs @ ys) = count_prefix pre xs + count_prefix pre ys"
  by (simp add: count_prefix_def)

lemma count_prefix_opt_line_same:
  "count_prefix pre (opt_line pre a) = (if truthy_attr a then 1 else 0)"
  by (cases a) (simp_all add: count_prefix_def opt_line_def truthy_attr_def)

lemma count_prefix_opt_line_other:
  "\<not> prefix pre pre' \<Longrightarrow> \<not> prefix pre' pre \<Longrightarrow> count_prefix pre (opt_line pre' a) = 0"
  by (cases a) (auto simp: count_prefix_def opt_line_def prefix_append)

lemma count_prefix_set_lines_same:
  "count_prefix ''Set: '' (set_lines sv) = (case sv of VNone \<Rightarrow> 0 | VDict items \<Rightarrow> length items)"
  by (cases sv) (simp_all add: count_prefix_def set_lines_def set_line_def)

lemma count_prefix_set_lines_other:
  "\<not> prefix pre ''Set: '' \<Longrightarrow> \<not> prefix ''Set: '' pre \<Longrightarrow> count_prefix pre (set_lines sv) = 0"
proof (cases sv)
  case VNone
  then show ?thesis by (simp add: count_prefix_def set_lines_def)
next
  case (VDict items)
  assume a: "\<not> prefix pre ''Set: ''" "\<not> prefix ''Set: '' pre"
  have "\<not> prefix pre (set_line item)" for item
    using a unfolding set_line_def prefix_append by auto
  then show ?thesis using VDict by (simp add: count_prefix_def set_lines_def)
qed

lemma count_prefix_head_lines:
  assumes "head_lines cf = Inr hd_ls"
    and "pre \<in> {''Set: '', ''Callerid: '', ''WaitTime: '', ''Maxretries: '', ''RetryTime: '',
                 ''Account: '', ''Archive: ''}"
  shows "count_prefix pre hd_ls = 0"
  using head_lines_shape [OF assms(1)] assms(2)
  by (auto simp: count_prefix_def)

subsection \<open>Auxiliary facts about the delivery\<close>

lemma write_loop_exists:
  "write_loop sys fname ls files = (r, files') \<Longrightarrow> files fname \<noteq> None \<Longrightarrow> files' fname \<noteq> None"
proof (induction ls arbitrary: files)
  case Nil
  then show ?case by simp
next
  case (Cons line ls)
  then show ?case
    by (auto simp: file_write_def split: option.splits if_splits)
qed

lemma writefile_exists:
  "writefile sys cf ls files = (Inr fname, files') \<Longrightarrow> files' fname \<noteq> None"
  by (auto simp: writefile_def split: sum.splits prod.splits dest!: write_loop_exists)

lemma chown_exists: "chown sys fname uid gid files = (r, files') \<Longrightarrow> (files' p = None) = (files p = None)"
  by (auto simp: chown_def split: option.splits if_splits)

lemma utime_exists: "utime sys fname a m files = (r, files') \<Longrightarrow> (files' p = None) = (files p = None)"
  by (auto simp: utime_def split: option.splits if_splits)

lemma user_try_exists:
  "user_try sys u fname files = (r, files') \<Longrightarrow> (files' p = None) = (files p = None)"
  by (auto simp: user_try_def chown_try_def split: option.splits sum.splits prod.splits
      dest: chown_exists)

lemma time_try_exists: "(time_try sys time fname files p = None) = (files p = None)"
  by (auto simp: time_try_def split: option.splits prod.splits dest: utime_exists)

lemma fst_move_try:
  "fst (move_try sys cf fname files) =
     (case destination cf fname of
        Inl e \<Rightarrow> Inl NoSpoolPermissionError
      | Inr dst \<Rightarrow> if files fname \<noteq> None \<and> move_ok sys fname dst then Inr True
                  else Inl NoSpoolPermissionError)"
  by (auto simp: move_try_def move_def split: sum.splits option.splits)

lemma user_try_errors:
  "user_try sys u fname files = (Inl e, files') \<Longrightarrow> e = NoUserError"
  by (auto simp: user_try_def split: option.splits sum.splits prod.splits)

lemma time_try_skipped:
  assumes "time = None \<or> (\<exists>dt. time = Some dt \<and> (mktime sys dt = None
             \<or> (\<exists>s. mktime sys dt = Some s \<and> \<not> utime_ok sys fname s s)))"
  shows "time_try sys time fname files = files"
  using assms by (auto simp: time_try_def utime_def split: option.splits)

lemma file_write_frame:
  "file_write (sys\<lparr>mktime := m, utime_ok := u\<rparr>) fname x fs = file_write sys fname x fs"
  by (simp add: file_write_def split: option.splits)

lemma write_loop_frame:
  "write_loop (sys\<lparr>mktime := m, utime_ok := u\<rparr>) fname xs fs = write_loop sys fname xs fs"
  by (induction xs arbitrary: fs) (simp_all add: file_write_frame split: prod.splits sum.splits)

lemma writefile_frame:
  "writefile (sys\<lparr>mktime := m, utime_ok := u\<rparr>) cf ls files = writefile sys cf ls files"
  by (simp add: writefile_def write_loop_frame split: sum.splits)

lemma user_try_frame:
  "user_try (sys\<lparr>mktime := m, utime_ok := u\<rparr>) usr fname files = user_try sys usr fname files"
  by (simp add: user_try_def chown_try_def chown_def split: option.splits)

lemma example_call_lines:
  "buildfile example_call = Inr [''Channel: SIP/1234'', ''Application: Playback'', ''Data: hello-world'']"
  by (simp add: example_call_def buildfile_def is_valid_def channel_stmt_def
      action_stmt_def getattr_def set_stmt_def opt_stmt_def archive_stmt_def)

lemma example_writefile:
  "write_ok sys = (\<lambda>fname s. True) \<Longrightarrow> mkstemp sys = (\<lambda>suffix dir. Inr (''/tmp/tmpabc'' @ suffix)) \<Longrightarrow>
   tmpdir cf = PNone \<Longrightarrow>
   writefile sys cf [''Channel: SIP/1234'', ''Application: Playback'', ''Data: hello-world'']
      Map.empty = (Inr ''/tmp/tmpabc.call'', example_tmp)"
  by (simp add: writefile_def file_write_def new_file_def example_tmp_def)

lemma run_outcomes:
  assumes "buildfile cf = Inr ls" and "writefile sys cf ls files = (Inr fname, files1)"
  shows "fst (run sys cf time files) = Inr True \<or> fst (run sys cf time files) = Inl NoUserError
       \<or> fst (run sys cf time files) = Inl NoSpoolPermissionError"
proof (cases "if truthy (user cf) then user_try sys (user cf) fname files1 else (Inr (), files1)")
  case (Pair r files2)
  show ?thesis
  proof (cases r)
    case (Inl e)
    with Pair have "e = NoUserError" by (auto split: if_splits dest: user_try_errors)
    with Pair Inl assms show ?thesis by (simp add: run_def)
  next
    case (Inr x)
    with Pair assms have "run sys cf time files = move_try sys cf fname (time_try sys time fname files2)"
      by (simp add: run_def)
    then show ?thesis by (simp add: fst_move_try split: sum.splits)
  qed
qed

lemma init_NameError:
  "\<not> truthy sd \<Longrightarrow> globals ''DEFAULT_SPOOL_DIR'' = None \<Longrightarrow>
     init globals c a sv ar u td fn sd = Inl NameError"
  by (simp add: init_def lookup_global_def)

lemma init_buildfile_AttributeError:
  "init globals c a sv ar u td fn sd = Inr cf \<Longrightarrow> buildfile cf = Inl AttributeError"
  by (auto simp: init_def bind_err_Inr buildfile_def is_valid_def channel_stmt_def getattr_def)

subsection \<open>Validation\<close>

text \<open>
  Claim C10. \<open>_is_valid\<close> returns \<open>True\<close> for every \<open>CallFile\<close>, so the
  \<open>raise UnknownError\<close> guarded by \<open>not self._is_valid()\<close> (line 68) is never reached:
  whenever \<open>_buildfile\<close> raises \<open>UnknownError\<close>, it is the one of line 81, raised after
  the channel line was built, with a falsy \<open>self.application\<close> and a falsy
  \<open>self.context and self.extension and self.priority\<close>.
\<close>

theorem is_valid_always:
  "is_valid cf
   \<and> (buildfile cf = Inl UnknownError \<longrightarrow>
        (\<exists>ch app. channel cf = Some (PStr ch) \<and> application cf = Some app \<and> \<not> truthy app
           \<and> context_cond cf = Inr False))"
proof -
  have "\<exists>ch app. channel cf = Some (PStr ch) \<and> application cf = Some app \<and> \<not> truthy app
           \<and> context_cond cf = Inr False" if "buildfile cf = Inl UnknownError"
  proof -
    from buildfile_InlD [OF that] obtain ls where
      ls: "channel_stmt cf [] = Inr ls" "action_stmt cf ls = Inl UnknownError" by auto
    from ls(1) obtain ch where "channel cf = Some (PStr ch)"
      by (auto simp: channel_stmt_def bind_err_Inr getattr_def split: option.splits
          elim!: str_add.elims)
    with action_stmt_UnknownError [OF ls(2)] show ?thesis by blast
  qed
  then show ?thesis by (simp add: is_valid_def)
qed

text \<open>
  The statement at an object with an empty application and an incomplete context action
  (context \<open>default\<close>, extension \<open>100\<close>, priority \<open>None\<close>).
\<close>

theorem is_valid_always_witness:
  "is_valid (example_call\<lparr>application := Some (PStr []), context' := Some (PStr ''default''),
       extension := Some (PStr ''100'')\<rparr>)
   \<and> buildfile (example_call\<lparr>application := Some (PStr []), context' := Some (PStr ''default''),
       extension := Some (PStr ''100'')\<rparr>) = Inl UnknownError
   \<and> (\<exists>ch app. channel (example_call\<lparr>application := Some (PStr []),
          context' := Some (PStr ''default''), extension := Some (PStr ''100'')\<rparr>) = Some (PStr ch)
        \<and> application (example_call\<lparr>application := Some (PStr []),
          context' := Some (PStr ''default''), extension := Some (PStr ''100'')\<rparr>) = Some app
        \<and> \<not> truthy app
        \<and> context_cond (example_call\<lparr>application := Some (PStr []),
          context' := Some (PStr ''default''), extension := Some (PStr ''100'')\<rparr>) = Inr False)"
proof -
  let ?cf = "example_call\<lparr>application := Some (PStr []), context' := Some (PStr ''default''),
       extension := Some (PStr ''100'')\<rparr>"
  have b: "buildfile ?cf = Inl UnknownError"
    by (simp add: example_call_def buildfile_def is_valid_def channel_stmt_def action_stmt_def
        context_cond_def getattr_def)
  from is_valid_always [of ?cf] b show ?thesis by simp
qed

text \<open>
  Claim C2. The claim asks for \<open>NoChannelDefinedError\<close> on an empty or absent channel,
  before the action is looked at. The code has no such check: with the channel set to the
  empty str the builder returns the lines, the first of them \<open>Channel: \<close> with nothing
  after it; with an empty channel and no action it raises \<open>UnknownError\<close>, the error of
  the action block; with the channel \<open>None\<close> the concatenation raises \<open>TypeError\<close>;
  with the attribute never set the read raises \<open>AttributeError\<close>.
\<close>

theorem buildfile_empty_channel:
  "buildfile (example_call\<lparr>channel := Some (PStr [])\<rparr>)
     = Inr [''Channel: '', ''Application: Playback'', ''Data: hello-world'']
   \<and> buildfile (example_call\<lparr>channel := Some (PStr []), application := Some PNone\<rparr>)
     = Inl UnknownError
   \<and> buildfile (example_call\<lparr>channel := Some PNone\<rparr>) = Inl TypeError
   \<and> buildfile (example_call\<lparr>channel := None\<rparr>) = Inl AttributeError"
  by (simp add: example_call_def buildfile_def is_valid_def channel_stmt_def action_stmt_def
      context_cond_def getattr_def set_stmt_def opt_stmt_def archive_stmt_def)

text \<open>
  Claim C3. The claim asks for \<open>NoActionDefinedError\<close> when neither action is complete.
  With channel \<open>SIP/1234\<close>, application \<open>None\<close> and no context, extension or priority,
  the code raises \<open>UnknownError\<close>.
\<close>

theorem buildfile_no_action:
  "buildfile (example_call\<lparr>application := Some PNone\<rparr>) = Inl UnknownError"
  by (simp add: example_call_def buildfile_def is_valid_def channel_stmt_def action_stmt_def
      context_cond_def getattr_def)

subsection \<open>The rendered lines\<close>




text \<open>
  Claim C7, as the claim states it, fails: \<open>max_retries = 0\<close> is present, and the
  builder emits no \<open>Maxretries\<close> line, since the test is \<open>if self.max_retries:\<close>
  and \<open>0\<close> is falsy.
\<close>

theorem buildfile_maxretries_zero_counterexample:
  "max_retries (example_call\<lparr>max_retries := Some (PInt 0)\<rparr>) = Some (PInt 0)
   \<and> buildfile (example_call\<lparr>max_retries := Some (PInt 0)\<rparr>)
       = Inr [''Channel: SIP/1234'', ''Application: Playback'', ''Data: hello-world'']"
  by (simp add: example_call_def buildfile_def is_valid_def channel_stmt_def
      action_stmt_def getattr_def set_stmt_def opt_stmt_def archive_stmt_def)

text \<open>
  Claim C7, amended. Whenever \<open>_buildfile\<close> returns, its result is the channel and
  action lines followed by, in this order: one \<open>Set\<close> line per item of the variable
  dict, then at most one line each for \<open>Callerid\<close>, \<open>WaitTime\<close>, \<open>Maxretries\<close>,
  \<open>RetryTime\<close>, \<open>Account\<close> and \<open>Archive\<close>. A field yields its line exactly when its
  value is truthy: \<open>None\<close>, \<open>False\<close>, \<open>0\<close> and the empty str yield none (so a
  \<open>max_retries\<close> of \<open>0\<close> yields no \<open>Maxretries\<close> line), and any other value yields
  exactly one.
\<close>

theorem buildfile_optional_lines:
  assumes "buildfile cf = Inr out"
  shows "(\<exists>hd_ls. head_lines cf = Inr hd_ls \<and> out = hd_ls @ optional_lines cf)
       \<and> count_prefix ''Set: '' out = (case set_var cf of VNone \<Rightarrow> 0 | VDict items \<Rightarrow> length items)
       \<and> count_prefix ''Callerid: '' out = (if truthy_attr (callerid cf) then 1 else 0)
       \<and> count_prefix ''WaitTime: '' out = (if truthy_attr (wait_time cf) then 1 else 0)
       \<and> count_prefix ''Maxretries: '' out = (if truthy_attr (max_retries cf) then 1 else 0)
       \<and> count_prefix ''RetryTime: '' out = (if truthy_attr (retry_time cf) then 1 else 0)
       \<and> count_prefix ''Account: '' out = (if truthy_attr (account cf) then 1 else 0)
       \<and> count_prefix ''Archive: '' out = (if truthy (archive cf) then 1 else 0)"
proof -
  from buildfile_InrD [OF assms] obtain hd_ls where
    h: "head_lines cf = Inr hd_ls" and out: "out = hd_ls @ optional_lines cf" by blast
  note z = count_prefix_head_lines [OF h]
  have arch: "count_prefix pre (if truthy (archive cf) then [''Archive: yes''] else [])
     = (if pre = ''Archive: '' \<and> truthy (archive cf) then 1 else 0)"
    if "pre \<in> {''Set: '', ''Callerid: '', ''WaitTime: '', ''Maxretries: '', ''RetryTime: '',
                 ''Account: '', ''Archive: ''}" for pre
    using that by (auto simp: count_prefix_def)
  have c1: "count_prefix ''Set: '' out = (case set_var cf of VNone \<Rightarrow> 0 | VDict items \<Rightarrow> length items)"
    unfolding out optional_lines_def
    by (simp add: z arch count_prefix_set_lines_same count_prefix_opt_line_other)
  have c2: "count_prefix ''Callerid: '' out = (if truthy_attr (callerid cf) then 1 else 0)"
    unfolding out optional_lines_def
    by (simp add: z arch count_prefix_set_lines_other count_prefix_opt_line_other
        count_prefix_opt_line_same)
  have c3: "count_prefix ''WaitTime: '' out = (if truthy_attr (wait_time cf) then 1 else 0)"
    unfolding out optional_lines_def
    by (simp add: z arch count_prefix_set_lines_other count_prefix_opt_line_other
        count_prefix_opt_line_same)
  have c4: "count_prefix ''Maxretries: '' out = (if truthy_attr (max_retries cf) then 1 else 0)"
    unfolding out optional_lines_def
    by (simp add: z arch count_prefix_set_lines_other count_prefix_opt_line_other
        count_prefix_opt_line_same)
  have c5: "count_prefix ''RetryTime: '' out = (if truthy_attr (retry_time cf) then 1 else 0)"
    unfolding out optional_lines_def
    by (simp add: z arch count_prefix_set_lines_other count_prefix_opt_line_other
        count_prefix_opt_line_same)
  have c6: "count_prefix ''Account: '' out = (if truthy_attr (account cf) then 1 else 0)"
    unfolding out optional_lines_def
    by (simp add: z arch count_prefix_set_lines_other count_prefix_opt_line_other
        count_prefix_opt_line_same)
  have c7: "count_prefix ''Archive: '' out = (if truthy (archive cf) then 1 else 0)"
    unfolding out optional_lines_def
    by (simp add: z arch count_prefix_set_lines_other count_prefix_opt_line_other)
  from h out c1 c2 c3 c4 c5 c6 c7 show ?thesis by blast
qed

text \<open>The statement at the sample object with every optional attribute set.\<close>

theorem buildfile_optional_lines_witness:
  "buildfile full_call =
     Inr [''Channel: SIP/1234'', ''Application: Playback'', ''Data: hello-world'',
          ''Set: FOO=1'', ''Set: BAR=2'', ''Callerid: Bob <100>'', ''WaitTime: 30'',
          ''Maxretries: 3'', ''RetryTime: 60'', ''Account: billing'', ''Archive: yes'']
   \<and> count_prefix ''Set: ''
        [''Channel: SIP/1234'', ''Application: Playback'', ''Data: hello-world'',
          ''Set: FOO=1'', ''Set: BAR=2'', ''Callerid: Bob <100>'', ''WaitTime: 30'',
          ''Maxretries: 3'', ''RetryTime: 60'', ''Account: billing'', ''Archive: yes''] = 2
   \<and> count_prefix ''Maxretries: ''
        [''Channel: SIP/1234'', ''Application: Playback'', ''Data: hello-world'',
          ''Set: FOO=1'', ''Set: BAR=2'', ''Callerid: Bob <100>'', ''WaitTime: 30'',
          ''Maxretries: 3'', ''RetryTime: 60'', ''Account: billing'', ''Archive: yes''] = 1
   \<and> count_prefix ''Archive: ''
        [''Channel: SIP/1234'', ''Application: Playback'', ''Data: hello-world'',
          ''Set: FOO=1'', ''Set: BAR=2'', ''Callerid: Bob <100>'', ''WaitTime: 30'',
          ''Maxretries: 3'', ''RetryTime: 60'', ''Account: billing'', ''Archive: yes''] = 1"
proof -
  have b: "buildfile full_call =
     Inr [''Channel: SIP/1234'', ''Application: Playback'', ''Data: hello-world'',
          ''Set: FOO=1'', ''Set: BAR=2'', ''Callerid: Bob <100>'', ''WaitTime: 30'',
          ''Maxretries: 3'', ''RetryTime: 60'', ''Account: billing'', ''Archive: yes'']"
    by (simp add: full_call_def example_call_def buildfile_def is_valid_def channel_stmt_def
      action_stmt_def getattr_def set_stmt_def opt_stmt_def archive_stmt_def set_line_def
      str_int_def str_nat.simps digit_def)
  from buildfile_optional_lines [OF b] b show ?thesis
    by (simp add: full_call_def example_call_def truthy_attr_def)
qed

subsection \<open>Construction\<close>

text \<open>
  Claim C4. The claim says that a \<open>CallFile\<close> built without \<open>spool_dir\<close> gets the
  default directory. In the code the default is named by the bare name
  \<open>DEFAULT_SPOOL_DIR\<close>, which is a class attribute and not a module global: with
  \<open>spool_dir=None\<close> and no global of that name, \<open>__init__\<close> raises \<open>NameError\<close>,
  whatever the other arguments are.
\<close>

theorem init_default_spool_dir:
  "init Map.empty c a sv ar u td fn PNone = Inl NameError"
  by (simp add: init_def lookup_global_def)

subsection \<open>Delivery\<close>

text \<open>
  Claim C9. \<open>spool\<close> raises \<open>NoActionDefinedError\<close> for every object, in every system
  and whatever files exist, and leaves the files as they were: nothing is written or moved.
\<close>

theorem spool_always_raises: "spool sys cf files = (Inl NoActionDefinedError, files)"
  by (simp add: spool_def)

text \<open>
  Claim C1. The claim says that a refused \<open>chown\<close> surfaces as \<open>NoUserPermissionError\<close>,
  distinct from the \<open>NoUserError\<close> of a failed lookup. In the code the inner
  \<open>raise NoUserPermissionError\<close> sits inside the outer \<open>try\<close>, whose bare \<open>except:\<close>
  replaces it: for the user \<open>asterisk\<close>, whom \<open>getpwnam\<close> resolves, with \<open>chown\<close>
  refused, \<open>run\<close> raises \<open>NoUserError\<close>, the same error as for the unknown user
  \<open>nobody\<close>.
\<close>

theorem run_chown_failure:
  "getpwnam (example_os\<lparr>chown_ok := (\<lambda>fname uid gid. False)\<rparr>) (PStr ''asterisk'') = Some (1001, 1001)
   \<and> fst (run (example_os\<lparr>chown_ok := (\<lambda>fname uid gid. False)\<rparr>)
            (example_call\<lparr>user := PStr ''asterisk''\<rparr>) None Map.empty) = Inl NoUserError
   \<and> getpwnam example_os (PStr ''nobody'') = None
   \<and> fst (run example_os (example_call\<lparr>user := PStr ''nobody''\<rparr>) None Map.empty) = Inl NoUserError"
proof -
  have b: "buildfile (example_call\<lparr>user := u\<rparr>)
     = Inr [''Channel: SIP/1234'', ''Application: Playback'', ''Data: hello-world'']" for u
    by (simp add: example_call_def buildfile_def is_valid_def channel_stmt_def
      action_stmt_def getattr_def set_stmt_def opt_stmt_def archive_stmt_def)
  have w: "writefile (example_os\<lparr>chown_ok := c\<rparr>) (example_call\<lparr>user := u\<rparr>)
        [''Channel: SIP/1234'', ''Application: Playback'', ''Data: hello-world''] Map.empty
        = (Inr ''/tmp/tmpabc.call'', example_tmp)" for c u
    by (rule example_writefile) (simp_all add: example_os_def example_call_def)
  have w': "writefile example_os (example_call\<lparr>user := u\<rparr>)
        [''Channel: SIP/1234'', ''Application: Playback'', ''Data: hello-world''] Map.empty
        = (Inr ''/tmp/tmpabc.call'', example_tmp)" for u
    by (rule example_writefile) (simp_all add: example_os_def example_call_def)
  have u1: "user_try (example_os\<lparr>chown_ok := (\<lambda>fname uid gid. False)\<rparr>) (PStr ''asterisk'')
      ''/tmp/tmpabc.call'' example_tmp = (Inl NoUserError, example_tmp)"
    by (simp add: user_try_def chown_try_def chown_def example_tmp_def example_os_def)
  have u2: "user_try example_os (PStr ''nobody'') ''/tmp/tmpabc.call'' example_tmp
      = (Inl NoUserError, example_tmp)"
    by (simp add: user_try_def example_os_def)
  have g: "getpwnam example_os (PStr ''asterisk'') = Some (1001, 1001)"
    "getpwnam example_os (PStr ''nobody'') = None"
    by (simp_all add: example_os_def)
  show ?thesis
    by (simp add: run_def b w w' u1 u2 g)
qed

text \<open>
  Claim C5. The claim says the file is moved to the spool directory joined with the base
  name. The code concatenates the two strs with no separator: with the spool directory
  \<open>/var/spool/asterisk/outgoing\<close> and the temporary file \<open>/tmp/tmpabc.call\<close> the run
  succeeds and the only file left is \<open>/var/spool/asterisk/outgoingtmpabc.call\<close>, whose
  directory is \<open>/var/spool/asterisk\<close>; the joined path would be
  \<open>/var/spool/asterisk/outgoing/tmpabc.call\<close>.
\<close>

theorem run_destination:
  "spool_dir example_call = PStr DEFAULT_SPOOL_DIR
   \<and> fst (run example_os example_call None Map.empty) = Inr True
   \<and> dom (snd (run example_os example_call None Map.empty))
       = {''/var/spool/asterisk/outgoingtmpabc.call''}
   \<and> dirname ''/var/spool/asterisk/outgoingtmpabc.call'' = ''/var/spool/asterisk''
   \<and> path_join ''/var/spool/asterisk/outgoing'' (basename ''/tmp/tmpabc.call'')
       = ''/var/spool/asterisk/outgoing/tmpabc.call''"
proof -
  have w: "writefile example_os example_call
        [''Channel: SIP/1234'', ''Application: Playback'', ''Data: hello-world''] Map.empty
        = (Inr ''/tmp/tmpabc.call'', example_tmp)"
    by (rule example_writefile) (simp_all add: example_os_def example_call_def)
  have d: "destination example_call ''/tmp/tmpabc.call''
     = Inr ''/var/spool/asterisk/outgoingtmpabc.call''"
    by (simp add: destination_def example_call_def basename_def)
  have r: "run example_os example_call None Map.empty
     = move_try example_os example_call ''/tmp/tmpabc.call'' example_tmp"
    by (simp add: run_def example_call_lines w time_try_def) (simp add: example_call_def)
  have m: "move_ok example_os = (\<lambda>src dst. True)" by (simp add: example_os_def)
  have s: "spool_dir example_call = PStr DEFAULT_SPOOL_DIR"
    by (simp add: example_call_def DEFAULT_SPOOL_DIR_def)
  show ?thesis
    unfolding r s
    by (simp add: move_try_def d move_def example_tmp_def m dirname_def path_join_def basename_def)
qed

text \<open>
  Claim C8. Take a run in which the lines were built, the temporary file was written and the
  ownership step passed (or was skipped), and in which the timestamp step fails or has
  nothing to do: no time was given (so \<open>time.timetuple()\<close> raises), \<open>mktime\<close> raises, or
  \<open>utime\<close> is refused. Then \<open>run\<close> is exactly the move of the untouched temporary file:
  it returns \<open>True\<close> or raises \<open>NoSpoolPermissionError\<close>, the error of the move, and its
  outcome is the one it has under any other answers of \<open>mktime\<close> and \<open>utime\<close> and any
  other time argument, a successful timestamp included.
\<close>

theorem run_timestamp_best_effort:
  assumes "buildfile cf = Inr ls"
    and "writefile sys cf ls files = (Inr fname, files1)"
    and "(if truthy (user cf) then user_try sys (user cf) fname files1 else (Inr (), files1))
           = (Inr (), files2)"
    and "time = None \<or> (\<exists>dt. time = Some dt \<and> (mktime sys dt = None
             \<or> (\<exists>s. mktime sys dt = Some s \<and> \<not> utime_ok sys fname s s)))"
  shows "run sys cf time files = move_try sys cf fname files2
       \<and> (fst (run sys cf time files) = Inr True
            \<or> fst (run sys cf time files) = Inl NoSpoolPermissionError)
       \<and> fst (run (sys\<lparr>mktime := m, utime_ok := u\<rparr>) cf time' files) = fst (run sys cf time files)"
proof -
  have r: "run s cf t files = move_try s cf fname (time_try s t fname files2)"
    if "writefile s cf ls files = (Inr fname, files1)"
      "(if truthy (user cf) then user_try s (user cf) fname files1 else (Inr (), files1))
           = (Inr (), files2)" for s t
    using assms(1) that by (simp add: run_def)
  have 1: "run sys cf time files = move_try sys cf fname files2"
    using r [OF assms(2,3)] time_try_skipped [OF assms(4)] by simp
  let ?s = "sys\<lparr>mktime := m, utime_ok := u\<rparr>"
  have "run ?s cf time' files = move_try ?s cf fname (time_try ?s time' fname files2)"
    using assms(2,3) by (intro r) (auto simp: writefile_frame user_try_frame split: if_splits)
  then have "fst (run ?s cf time' files) = fst (move_try sys cf fname files2)"
    by (simp add: fst_move_try time_try_exists split: sum.splits)
  moreover have "fst (move_try sys cf fname files2) = Inr True
      \<or> fst (move_try sys cf fname files2) = Inl NoSpoolPermissionError"
    by (simp add: fst_move_try split: sum.splits)
  ultimately show ?thesis using 1 by simp
qed

text \<open>
  The statement at the sample object, scheduled for 2030-01-01 12:00:00, in the sample
  system with \<open>utime\<close> refused.
\<close>

theorem run_timestamp_best_effort_witness:
  "buildfile example_call
     = Inr [''Channel: SIP/1234'', ''Application: Playback'', ''Data: hello-world'']
   \<and> writefile (example_os\<lparr>utime_ok := (\<lambda>fname at mt. False)\<rparr>) example_call
        [''Channel: SIP/1234'', ''Application: Playback'', ''Data: hello-world''] Map.empty
        = (Inr ''/tmp/tmpabc.call'', example_tmp)
   \<and> \<not> truthy (user example_call)
   \<and> mktime (example_os\<lparr>utime_ok := (\<lambda>fname at mt. False)\<rparr>) (Datetime 2030 1 1 12 0 0)
        = Some 1288888888
   \<and> \<not> utime_ok (example_os\<lparr>utime_ok := (\<lambda>fname at mt. False)\<rparr>) ''/tmp/tmpabc.call''
        1288888888 1288888888
   \<and> run (example_os\<lparr>utime_ok := (\<lambda>fname at mt. False)\<rparr>) example_call
        (Some (Datetime 2030 1 1 12 0 0)) Map.empty
        = move_try (example_os\<lparr>utime_ok := (\<lambda>fname at mt. False)\<rparr>) example_call
            ''/tmp/tmpabc.call'' example_tmp
   \<and> fst (run example_os example_call (Some (Datetime 2030 1 1 12 0 0)) Map.empty)
        = fst (run (example_os\<lparr>utime_ok := (\<lambda>fname at mt. False)\<rparr>) example_call
            (Some (Datetime 2030 1 1 12 0 0)) Map.empty)"
proof -
  let ?sys = "example_os\<lparr>utime_ok := (\<lambda>fname at mt. False)\<rparr>"
  let ?t = "Some (Datetime 2030 1 1 12 0 0)"
  have w: "writefile ?sys example_call
        [''Channel: SIP/1234'', ''Application: Playback'', ''Data: hello-world''] Map.empty
        = (Inr ''/tmp/tmpabc.call'', example_tmp)"
    by (rule example_writefile) (simp_all add: example_os_def example_call_def)
  have u: "(if truthy (user example_call)
            then user_try ?sys (user example_call) ''/tmp/tmpabc.call'' example_tmp
            else (Inr (), example_tmp)) = (Inr (), example_tmp)"
    by (simp add: example_call_def)
  have t: "?t = None \<or> (\<exists>dt. ?t = Some dt \<and> (mktime ?sys dt = None
             \<or> (\<exists>s. mktime ?sys dt = Some s \<and> \<not> utime_ok ?sys ''/tmp/tmpabc.call'' s s)))"
    by (simp add: example_os_def)
  have e: "?sys\<lparr>mktime := mktime example_os, utime_ok := utime_ok example_os\<rparr> = example_os"
    by (simp add: example_os_def)
  from run_timestamp_best_effort [where m = "mktime example_os" and u = "utime_ok example_os"
      and time' = ?t, OF example_call_lines w u t]
  show ?thesis
    unfolding e using example_call_lines w
    by (simp add: example_os_def example_call_def)
qed

end
